theory Spec2Isabelle
  imports Main "HOL-Library.Multiset"
begin

section \<open>Python values\<close>

text \<open>
  A Python \<open>str\<close> is a sequence of Unicode code points and \<open>len\<close> counts code points,
  so a string is a list of code points here. \<open>str\<close> turns a literal of the source into
  such a list; \<open>ord\<close> is Python's \<open>ord\<close> on one character of a literal.
\<close>

type_synonym pystr = "nat list"

definition ord :: "char \<Rightarrow> nat" where
  "ord c = of_char c"

definition str :: "string \<Rightarrow> pystr" where
  "str s = map ord s"

text \<open>
  The values \<open>check_password_strength\<close> may be handed as \<open>password\<close>. The function only
  asks \<open>isinstance(password, str)\<close> of a value that is not a string, so the other
  constructors stand for every kind of value that is not text.
\<close>

datatype pyval =
    PyStr pystr
  | PyBytes "nat list"
  | PyInt int
  | PyBool bool
  | PyNone

fun isinstance_str :: "pyval \<Rightarrow> bool" where
  "isinstance_str (PyStr s) = True"
| "isinstance_str v = False"

text \<open>
  The exceptions below are all subclasses of \<open>Exception\<close>, which is what the handlers
  \<open>except Exception as e\<close> of the source catch. \<open>exn_str\<close> is \<open>str(e)\<close>, as the
  f-strings of the handlers format it: the message for an exception built from one
  message, the \<open>repr\<close> of the key for a \<open>KeyError\<close>.
\<close>

datatype exn =
    ValueError pystr
  | FileNotFoundError pystr
  | KeyError pystr
  | OtherException pystr

fun exn_str :: "exn \<Rightarrow> pystr" where
  "exn_str (ValueError m) = m"
| "exn_str (FileNotFoundError m) = m"
| "exn_str (KeyError k) = [39] @ k @ [39]"
| "exn_str (OtherException m) = m"

section \<open>Effects\<close>

text \<open>
  What a function does beyond returning: a call of the \<open>logging\<close> module at some level
  with a message, or a \<open>print\<close> of a line. A function of the model returns its value
  together with the effects it caused, in order.
\<close>

datatype level = INFO | ERROR | CRITICAL

datatype effect =
    Log level pystr
  | Print pystr



section \<open>Regular expressions of one character class\<close>

text \<open>
  Every pattern of the source is one bracket expression: \<open>[A-Z]\<close>, \<open>[a-z]\<close>, \<open>[0-9]\<close> and
  \<open>[!@#$%^&*]\<close>. A class is the list of its ranges of code points (a single character
  is the range from itself to itself). \<open>re_search\<close> scans the string from the left and
  returns the position of the first character in the class, the start of the match
  object of \<open>re.search\<close>, or \<open>None\<close>.
\<close>

type_synonym char_class = "(nat \<times> nat) list"

definition in_class :: "char_class \<Rightarrow> nat \<Rightarrow> bool" where
  "in_class cls c = list_ex (\<lambda>(lo, hi). lo \<le> c \<and> c \<le> hi) cls"

fun re_search_from :: "char_class \<Rightarrow> nat \<Rightarrow> pystr \<Rightarrow> nat option" where
  "re_search_from cls i [] = None"
| "re_search_from cls i (c # cs) =
     (if in_class cls c then Some i else re_search_from cls (Suc i) cs)"

definition re_search :: "char_class \<Rightarrow> pystr \<Rightarrow> nat option" where
  "re_search cls s = re_search_from cls 0 s"

definition upper_class :: char_class where
  "upper_class = [(ord CHR ''A'', ord CHR ''Z'')]"

definition lower_class :: char_class where
  "lower_class = [(ord CHR ''a'', ord CHR ''z'')]"

definition digit_class :: char_class where
  "digit_class = [(ord CHR ''0'', ord CHR ''9'')]"

definition special_class :: char_class where
  "special_class = map (\<lambda>c. (ord c, ord c)) ''!@#$%^&*''"

section \<open>check_password_strength\<close>

text \<open>
  The accumulator of the function: \<open>score\<close> and \<open>feedback\<close>, both updated in place by
  the source. \<open>min_length\<close> is an integer, as the command line (\<open>type=int\<close>) gives it.
\<close>

type_synonym acc = "int \<times> pystr list"

text \<open>The \<open>if\<close>/\<open>elif\<close>/\<open>else\<close> on the length, in the order of the source.\<close>

definition length_rule :: "pystr \<Rightarrow> int \<Rightarrow> acc \<Rightarrow> acc" where
  "length_rule password min_length a =
     (case a of (score, feedback) \<Rightarrow>
        if int (length password) \<ge> 12 then
          (score + 2, feedback @ [str ''Good length (>=12)''])
        else if int (length password) \<ge> min_length then
          (score + 1, feedback @ [str ''Minimum length met''])
        else
          (score, feedback @ [str ''Too short'']))"

text \<open>One \<open>if re.search(...)\<close> block: a match adds a point and an entry.\<close>

definition class_rule :: "char_class \<Rightarrow> string \<Rightarrow> pystr \<Rightarrow> acc \<Rightarrow> acc" where
  "class_rule cls msg password a =
     (case a of (score, feedback) \<Rightarrow>
        if re_search cls password \<noteq> None then (score + 1, feedback @ [str msg])
        else (score, feedback))"

text \<open>
  The body of the \<open>try\<close>: either it raises (\<open>Inl\<close>) or it reaches
  \<open>return score, feedback\<close> (\<open>Inr\<close>).
\<close>

definition check_body :: "pyval \<Rightarrow> int \<Rightarrow> exn + acc" where
  "check_body password min_length =
     (case password of
        PyStr s \<Rightarrow>
          Inr (class_rule special_class ''Has special characters'' s
              (class_rule digit_class ''Has numbers'' s
              (class_rule lower_class ''Has lowercase'' s
              (class_rule upper_class ''Has uppercase'' s
              (length_rule s min_length (0, []))))))
      | _ \<Rightarrow> Inl (ValueError (str ''Password must be a string'')))"

text \<open>
  The whole function: the handler logs the exception at error level and returns
  \<open>0, [f"Error: {e}"]\<close>.
\<close>

type_synonym outcome = "acc \<times> effect list"

definition check_password_strength :: "pyval \<Rightarrow> int \<Rightarrow> outcome" where
  "check_password_strength password min_length =
     (case check_body password min_length of
        Inr a \<Rightarrow> (a, [])
      | Inl e \<Rightarrow>
          ((0, [str ''Error: '' @ exn_str e]),
           [Log ERROR (str ''Error checking password: '' @ exn_str e)]))"

definition score_of :: "outcome \<Rightarrow> int" where
  "score_of r = fst (fst r)"

definition feedback_of :: "outcome \<Rightarrow> pystr list" where
  "feedback_of r = snd (fst r)"


section \<open>load_config\<close>







section \<open>The rules in the words of the specification\<close>

text \<open>
  What the specification calls the character classes: an uppercase ASCII letter, a
  lowercase ASCII letter, an ASCII digit, a character of the fixed set of special
  characters. These are stated on the code points, not through \<open>re_search\<close>.
\<close>

definition contains_upper :: "pystr \<Rightarrow> bool" where
  "contains_upper s = (\<exists>c \<in> set s. ord CHR ''A'' \<le> c \<and> c \<le> ord CHR ''Z'')"

definition contains_lower :: "pystr \<Rightarrow> bool" where
  "contains_lower s = (\<exists>c \<in> set s. ord CHR ''a'' \<le> c \<and> c \<le> ord CHR ''z'')"

definition contains_digit :: "pystr \<Rightarrow> bool" where
  "contains_digit s = (\<exists>c \<in> set s. ord CHR ''0'' \<le> c \<and> c \<le> ord CHR ''9'')"

definition contains_special :: "pystr \<Rightarrow> bool" where
  "contains_special s =
     (\<exists>c \<in> set s. c \<in> ord ` {CHR ''!'', CHR ''@'', CHR ''#'', CHR ''$'', CHR ''%'',
                                CHR ''^'', CHR ''&'', CHR ''*''})"

text \<open>The points of the four class rules, and the entries they add, in rule order.\<close>

definition class_points :: "pystr \<Rightarrow> int" where
  "class_points s =
     of_bool (contains_upper s) + of_bool (contains_lower s) +
     of_bool (contains_digit s) + of_bool (contains_special s)"

definition class_entries :: "pystr \<Rightarrow> pystr list" where
  "class_entries s =
     (if contains_upper s then [str ''Has uppercase''] else []) @
     (if contains_lower s then [str ''Has lowercase''] else []) @
     (if contains_digit s then [str ''Has numbers''] else []) @
     (if contains_special s then [str ''Has special characters''] else [])"

text \<open>The three entries of the length tier.\<close>

definition length_entries :: "pystr list" where
  "length_entries =
     [str ''Good length (>=12)'', str ''Minimum length met'', str ''Too short'']"

section \<open>The code against the words of the specification\<close>

subsection \<open>Literals\<close>

lemma ord_eq_iff: "ord a = ord b \<longleftrightarrow> a = b"
  unfolding ord_def by simp

lemma str_eq_iff: "str a = str b \<longleftrightarrow> a = b"
  unfolding str_def by (simp add: inj_def ord_eq_iff)

lemma str_append: "str (a @ b) = str a @ str b"
  by (simp add: str_def)

subsection \<open>A search succeeds exactly when the class occurs\<close>

lemma re_search_from_None:
  "re_search_from cls i s = None \<longleftrightarrow> (\<forall>c \<in> set s. \<not> in_class cls c)"
  by (induction s arbitrary: i) auto

lemma re_search_matches: "re_search cls s \<noteq> None \<longleftrightarrow> (\<exists>c \<in> set s. in_class cls c)"
  by (simp add: re_search_def re_search_from_None)

lemma in_upper_class: "in_class upper_class c \<longleftrightarrow> ord CHR ''A'' \<le> c \<and> c \<le> ord CHR ''Z''"
  by (simp add: in_class_def upper_class_def)

lemma in_lower_class: "in_class lower_class c \<longleftrightarrow> ord CHR ''a'' \<le> c \<and> c \<le> ord CHR ''z''"
  by (simp add: in_class_def lower_class_def)

lemma in_digit_class: "in_class digit_class c \<longleftrightarrow> ord CHR ''0'' \<le> c \<and> c \<le> ord CHR ''9''"
  by (simp add: in_class_def digit_class_def)

lemma in_special_class:
  "in_class special_class c \<longleftrightarrow>
     c \<in> ord ` {CHR ''!'', CHR ''@'', CHR ''#'', CHR ''$'', CHR ''%'',
                CHR ''^'', CHR ''&'', CHR ''*''}"
  by (auto simp add: in_class_def special_class_def)

lemma search_upper: "re_search upper_class s \<noteq> None \<longleftrightarrow> contains_upper s"
  by (simp only: re_search_matches in_upper_class contains_upper_def)

lemma search_lower: "re_search lower_class s \<noteq> None \<longleftrightarrow> contains_lower s"
  by (simp only: re_search_matches in_lower_class contains_lower_def)

lemma search_digit: "re_search digit_class s \<noteq> None \<longleftrightarrow> contains_digit s"
  by (simp only: re_search_matches in_digit_class contains_digit_def)

lemma search_special: "re_search special_class s \<noteq> None \<longleftrightarrow> contains_special s"
  by (simp only: re_search_matches in_special_class contains_special_def)

subsection \<open>Closed forms of the two paths\<close>

lemma class_rules_closed:
  "class_rule special_class ''Has special characters'' s
     (class_rule digit_class ''Has numbers'' s
     (class_rule lower_class ''Has lowercase'' s
     (class_rule upper_class ''Has uppercase'' s (sc, fb)))) =
   (sc + class_points s, fb @ class_entries s)"
  using search_upper [of s] search_lower [of s] search_digit [of s] search_special [of s]
  by (simp add: class_rule_def class_points_def class_entries_def)

lemma check_body_string:
  "check_body (PyStr s) m =
     Inr (fst (length_rule s m (0, [])) + class_points s,
          snd (length_rule s m (0, [])) @ class_entries s)"
  unfolding check_body_def
  by (cases "length_rule s m (0, [])") (simp add: class_rules_closed)

lemma check_body_other:
  "\<not> isinstance_str v \<Longrightarrow>
   check_body v m = Inl (ValueError (str ''Password must be a string''))"
  by (cases v) (simp_all add: check_body_def)

lemma check_string:
  "check_password_strength (PyStr s) m =
     ((fst (length_rule s m (0, [])) + class_points s,
       snd (length_rule s m (0, [])) @ class_entries s), [])"
  by (simp add: check_password_strength_def check_body_string)

lemma check_other:
  "\<not> isinstance_str v \<Longrightarrow>
   check_password_strength v m =
     ((0, [str ''Error: Password must be a string'']),
      [Log ERROR (str ''Error checking password: Password must be a string'')])"
  by (simp add: check_password_strength_def check_body_other str_append [symmetric])

lemma isinstance_strE: "isinstance_str v \<Longrightarrow> \<exists>s. v = PyStr s"
  by (cases v) simp_all

subsection \<open>The length tier and the class rules, one at a time\<close>

lemma length_rule_cases:
  "length_rule s m (sc, fb) =
     (if 12 \<le> length s then (sc + 2, fb @ [str ''Good length (>=12)''])
      else if m \<le> int (length s) then (sc + 1, fb @ [str ''Minimum length met''])
      else (sc, fb @ [str ''Too short'']))"
  by (simp add: length_rule_def)

lemma length_rule_points:
  "0 \<le> fst (length_rule s m (0, [])) \<and> fst (length_rule s m (0, [])) \<le> 2"
  by (simp add: length_rule_cases)

lemma length_rule_one_entry:
  "\<exists>t \<in> set length_entries. snd (length_rule s m (0, [])) = [t]"
  by (simp add: length_rule_cases length_entries_def)

lemma length_points_append:
  "fst (length_rule p m (0, [])) \<le> fst (length_rule (p @ s) m (0, []))"
  by (simp add: length_rule_cases)

lemma class_points_bounds: "0 \<le> class_points s \<and> class_points s \<le> 4"
  by (simp add: class_points_def)

lemma length_class_entries: "length (class_entries s) \<le> 4"
  by (simp add: class_entries_def)

lemma class_entries_not_length: "set (class_entries s) \<inter> set length_entries = {}"
  by (simp add: class_entries_def length_entries_def str_eq_iff)

lemma contains_mset:
  assumes "mset p = mset q"
  shows "contains_upper p = contains_upper q" "contains_lower p = contains_lower q"
    "contains_digit p = contains_digit q" "contains_special p = contains_special q"
  using mset_eq_setD [OF assms]
  by (simp_all add: contains_upper_def contains_lower_def contains_digit_def
      contains_special_def)

lemma contains_append:
  "contains_upper p \<Longrightarrow> contains_upper (p @ s)"
  "contains_lower p \<Longrightarrow> contains_lower (p @ s)"
  "contains_digit p \<Longrightarrow> contains_digit (p @ s)"
  "contains_special p \<Longrightarrow> contains_special (p @ s)"
  by (auto simp add: contains_upper_def contains_lower_def contains_digit_def
      contains_special_def)

lemma class_points_append: "class_points p \<le> class_points (p @ s)"
  using contains_append [of p s]
  by (auto simp add: class_points_def of_bool_def)

subsection \<open>Entries of the length tier are not error entries\<close>



lemma check_empty: "check_password_strength (PyStr []) 8 = ((0, [str ''Too short'']), [])"
  by (simp add: check_string length_rule_cases class_points_def class_entries_def
      contains_upper_def contains_lower_def contains_digit_def contains_special_def)

lemmas evaluation_defs =
  check_password_strength_def check_body_def class_rule_def length_rule_def
  re_search_def in_class_def upper_class_def lower_class_def digit_class_def
  special_class_def str_def ord_def

subsection \<open>load_config, path by path\<close>






section \<open>The claims\<close>

text \<open>
  C1, as stated, fails: the test on 12 comes first in the source, so a password of 12
  characters with minimum length 13 is shorter than the minimum and still gets the 2
  points of "Good length (>=12)", and "Too short" is not in its feedback.
\<close>

theorem too_short_counterexample:
  "int (length (str ''aaaaaaaaaaaa'')) < 13 \<and>
   fst (length_rule (str ''aaaaaaaaaaaa'') 13 (0, [])) = 2 \<and>
   check_password_strength (PyStr (str ''aaaaaaaaaaaa'')) 13 =
     ((3, [str ''Good length (>=12)'', str ''Has lowercase'']), []) \<and>
   str ''Too short'' \<notin>
     set (feedback_of (check_password_strength (PyStr (str ''aaaaaaaaaaaa'')) 13))"
proof -
  have len: "length (str ''aaaaaaaaaaaa'') = 12"
    by (simp add: str_def)
  have r: "check_password_strength (PyStr (str ''aaaaaaaaaaaa'')) 13 =
     ((3, [str ''Good length (>=12)'', str ''Has lowercase'']), [])"
    by (simp add: evaluation_defs)
  show ?thesis
    by (simp add: r feedback_of_def len length_rule_cases str_eq_iff)
qed

text \<open>
  C1, amended. A string password shorter than the minimum length and shorter than 12
  gets no point from the length rule (the score is the points of the class rules
  alone) and its feedback starts with "Too short"; the empty password with minimum
  length 8 gives score 0 and the feedback "Too short" alone.
\<close>

theorem too_short_below_twelve:
  assumes "int (length s) < m" and "length s < 12"
  shows "length_rule s m (sc, fb) = (sc, fb @ [str ''Too short'']) \<and>
    score_of (check_password_strength (PyStr s) m) = class_points s \<and>
    feedback_of (check_password_strength (PyStr s) m) = str ''Too short'' # class_entries s \<and>
    str ''Too short'' \<in> set (feedback_of (check_password_strength (PyStr s) m)) \<and>
    check_password_strength (PyStr []) 8 = ((0, [str ''Too short'']), [])"
  using assms check_empty
  by (simp add: check_string length_rule_cases score_of_def feedback_of_def)

theorem too_short_below_twelve_witness:
  "int (length (str ''short'')) < 8 \<and> length (str ''short'') < 12 \<and>
   length_rule (str ''short'') 8 (0, []) = (0, [str ''Too short'']) \<and>
   score_of (check_password_strength (PyStr (str ''short'')) 8) = 1 \<and>
   feedback_of (check_password_strength (PyStr (str ''short'')) 8) =
     [str ''Too short'', str ''Has lowercase''] \<and>
   str ''Too short'' \<in> set (feedback_of (check_password_strength (PyStr (str ''short'')) 8)) \<and>
   check_password_strength (PyStr []) 8 = ((0, [str ''Too short'']), [])"
proof -
  have h1: "int (length (str ''short'')) < 8"
    by (simp add: str_def)
  have h2: "length (str ''short'') < 12"
    by (simp add: str_def)
  have r: "check_password_strength (PyStr (str ''short'')) 8 =
     ((1, [str ''Too short'', str ''Has lowercase'']), [])"
    by (simp add: evaluation_defs)
  show ?thesis
    using h1 h2 too_short_below_twelve [OF h1 h2, of 0 "[]"]
    by (simp add: r score_of_def feedback_of_def)
qed

text \<open>
  C2. For every value passed as the password and every minimum length, the score is
  between 0 and 6 and the feedback has between 1 and 5 entries.
\<close>

theorem score_and_feedback_bounds:
  "0 \<le> score_of (check_password_strength v m) \<and>
   score_of (check_password_strength v m) \<le> 6 \<and>
   1 \<le> length (feedback_of (check_password_strength v m)) \<and>
   length (feedback_of (check_password_strength v m)) \<le> 5"
proof (cases "isinstance_str v")
  case True
  then obtain s where v: "v = PyStr s"
    using isinstance_strE by blast
  obtain t where t: "snd (length_rule s m (0, [])) = [t]"
    using length_rule_one_entry by blast
  show ?thesis
    using class_points_bounds [of s] length_class_entries [of s] length_rule_points [of s m]
    by (simp add: v check_string score_of_def feedback_of_def t)
next
  case False
  then show ?thesis
    by (simp add: check_other score_of_def feedback_of_def)
qed

theorem score_and_feedback_bounds_witness:
  "0 \<le> score_of (check_password_strength (PyStr (str ''Ab1!efgh'')) 8) \<and>
   score_of (check_password_strength (PyStr (str ''Ab1!efgh'')) 8) \<le> 6 \<and>
   1 \<le> length (feedback_of (check_password_strength (PyStr (str ''Ab1!efgh'')) 8)) \<and>
   length (feedback_of (check_password_strength (PyStr (str ''Ab1!efgh'')) 8)) \<le> 5 \<and>
   0 \<le> score_of (check_password_strength PyNone 8) \<and>
   score_of (check_password_strength PyNone 8) \<le> 6 \<and>
   1 \<le> length (feedback_of (check_password_strength PyNone 8)) \<and>
   length (feedback_of (check_password_strength PyNone 8)) \<le> 5"
  using score_and_feedback_bounds [of "PyStr (str ''Ab1!efgh'')" 8]
    score_and_feedback_bounds [of PyNone 8]
  by simp

text \<open>
  C3. The password \<open>Ab1!efgh\<close> with minimum length 8 scores 5, with the five entries
  "Minimum length met", "Has uppercase", "Has lowercase", "Has numbers" and
  "Has special characters" in this order (and nothing is logged).
\<close>

theorem check_Ab1_efgh:
  "check_password_strength (PyStr (str ''Ab1!efgh'')) 8 =
     ((5, [str ''Minimum length met'', str ''Has uppercase'', str ''Has lowercase'',
           str ''Has numbers'', str ''Has special characters'']), [])"
  by (simp add: check_password_strength_def check_body_def class_rule_def length_rule_def
      re_search_def in_class_def upper_class_def lower_class_def digit_class_def
      special_class_def str_def ord_def)

text \<open>
  C4. A password that is not a string makes the body raise the \<open>ValueError\<close>
  "Password must be a string", which the function handles itself: it returns score 0
  and the single entry "Error: Password must be a string".
\<close>

theorem non_string_password_reported:
  "\<not> isinstance_str v \<Longrightarrow>
   check_body v m = Inl (ValueError (str ''Password must be a string'')) \<and>
   score_of (check_password_strength v m) = 0 \<and>
   feedback_of (check_password_strength v m) = [str ''Error: Password must be a string'']"
  by (simp add: check_body_other check_other score_of_def feedback_of_def)

theorem non_string_password_reported_witness:
  "\<not> isinstance_str (PyInt 12345) \<and>
   check_body (PyInt 12345) 8 = Inl (ValueError (str ''Password must be a string'')) \<and>
   score_of (check_password_strength (PyInt 12345) 8) = 0 \<and>
   feedback_of (check_password_strength (PyInt 12345) 8) =
     [str ''Error: Password must be a string'']"
  using non_string_password_reported [of "PyInt 12345" 8] by simp






text \<open>
  C7. For a string password the feedback is one entry of the length tier followed by
  the entries of the class rules in rule order ("Has uppercase", "Has lowercase",
  "Has numbers", "Has special characters"), each present exactly when its class occurs
  in the password; no other entry of the feedback is an entry of the length tier.
\<close>

theorem feedback_in_rule_order:
  "\<exists>t \<in> set length_entries.
     feedback_of (check_password_strength (PyStr s) m) = t # class_entries s \<and>
     length (filter (\<lambda>e. e \<in> set length_entries)
       (feedback_of (check_password_strength (PyStr s) m))) = 1"
proof -
  obtain t where t: "t \<in> set length_entries" "snd (length_rule s m (0, [])) = [t]"
    using length_rule_one_entry by blast
  have "filter (\<lambda>e. e \<in> set length_entries) (class_entries s) = []"
    using class_entries_not_length [of s] by (auto simp: filter_empty_conv)
  with t show ?thesis
    by (intro bexI [of _ t]) (simp_all add: check_string feedback_of_def)
qed

text \<open>
  C8. Two string passwords with the same multiset of characters get the same score.
\<close>

theorem score_permutation_invariant:
  "mset p = mset q \<Longrightarrow>
   score_of (check_password_strength (PyStr p) m) =
   score_of (check_password_strength (PyStr q) m)"
proof -
  assume h: "mset p = mset q"
  have len: "length p = length q"
    using h by (rule mset_eq_length)
  have cls: "class_points p = class_points q"
    unfolding class_points_def using contains_mset [OF h] by simp
  show ?thesis
    by (simp add: check_string score_of_def length_rule_cases len cls)
qed

theorem score_permutation_invariant_witness:
  "mset (str ''Ab1!efgh'') = mset (str ''hgfe!1bA'') \<and>
   score_of (check_password_strength (PyStr (str ''Ab1!efgh'')) 8) =
   score_of (check_password_strength (PyStr (str ''hgfe!1bA'')) 8)"
proof -
  have "str ''hgfe!1bA'' = rev (str ''Ab1!efgh'')"
    by (simp add: str_def)
  then have h: "mset (str ''Ab1!efgh'') = mset (str ''hgfe!1bA'')"
    by simp
  show ?thesis
    using h score_permutation_invariant [OF h, of 8] by simp
qed

text \<open>
  C9. Appending characters to a string password never lowers its score.
\<close>

theorem score_append_monotone:
  "score_of (check_password_strength (PyStr p) m) \<le>
   score_of (check_password_strength (PyStr (p @ s)) m)"
  using class_points_append [of p s] length_points_append [of p m s]
  by (simp add: check_string score_of_def)



end
